theory Spec2Isabelle
  imports Main
begin

section \<open>The dashboard page of the suggestion box\<close>

text \<open>
  The component \<^verbatim>\<open>UserDashboard\<close> of \<^verbatim>\<open>src/app/(app)/dashboard/page.tsx\<close> keeps the
  owner's inbox in React state and changes it through a handful of handlers. Each handler
  is embedded as a function from the state one render sees to the state the next render
  sees. A handler that awaits an HTTP call is split at the \<^verbatim>\<open>await\<close>: the part before it
  (\<open>_begin\<close>), and the part after it (\<open>_resume\<close>), which receives the outcome of the call
  as a value, \<open>Inl\<close> for a rejected promise and \<open>Inr\<close> for a response.
\<close>

subsection \<open>Data\<close>

text \<open>
  Modelled from the spec: the type \<^verbatim>\<open>Message\<close> of \<^verbatim>\<open>@/model/User\<close> is not among the
  sources. The page reads \<^verbatim>\<open>_id\<close> (here \<open>msg_id\<close>) and \<^verbatim>\<open>purpose\<close>; the other fields
  are those of the data model. \<^verbatim>\<open>purpose\<close> stays a string, since the page compares it
  with \<^verbatim>\<open>===\<close> against the value of the select element.
\<close>

record Message =
  msg_id :: string
  content :: string
  purpose :: string
  createdAt :: nat

text \<open>\<^verbatim>\<open>type FilterOptions = "all" | "feedback" | "suggestion" | "appreciation"\<close>\<close>

datatype FilterOptions = F_all | F_feedback | F_suggestion | F_appreciation

fun filter_value :: "FilterOptions \<Rightarrow> string" where
  "filter_value F_all = ''all''"
| "filter_value F_feedback = ''feedback''"
| "filter_value F_suggestion = ''suggestion''"
| "filter_value F_appreciation = ''appreciation''"

text \<open>
  Modelled from the spec: the type \<^verbatim>\<open>ApiResponse\<close> of \<^verbatim>\<open>@/types/ApiResponse\<close> is not
  among the sources. Its fields are the ones the page reads, typed as the table of
  boundary operations gives them; \<^verbatim>\<open>messages\<close> may be absent or null (\<open>None\<close>), which
  the page guards against with \<^verbatim>\<open>|| []\<close>.
\<close>

record ApiResponse =
  data_message :: string
  data_isAcceptingMessage :: bool
  data_messages :: "Message list option"

text \<open>
  A rejected \<^verbatim>\<open>axios\<close> call: the error carries the server's response when there was one
  (\<^verbatim>\<open>axiosError.response?.data.message\<close>).
\<close>

datatype AxiosError = AxiosError "ApiResponse option"

datatype Request
  = GetAcceptMessages
  | GetMessages
  | PostAcceptMessages bool

datatype Variant = Default | Destructive

record Toast =
  title :: string
  description :: "string option"
  variant :: "Variant option"

text \<open>
  The state of the component: the \<^verbatim>\<open>useState\<close> cells, the form value
  \<^verbatim>\<open>acceptMessages\<close> (a boolean, as \<^verbatim>\<open>acceptMessageSchema\<close> and the boundary operations
  have it), and two traces of what the component did to the outside: the toasts it
  raised and the HTTP requests it issued, oldest first.
\<close>

record Dashboard =
  messages :: "Message list"
  filteredMessages :: "Message list"
  isLoading :: bool
  isSwitchLoading :: bool
  profileUrl :: string
  filter_st :: FilterOptions
  acceptMessages :: bool
  toasts :: "Toast list"
  requests :: "Request list"

definition toast :: "Toast \<Rightarrow> Dashboard \<Rightarrow> Dashboard" where
  "toast t s = s\<lparr>toasts := toasts s @ [t]\<rparr>"

definition axios :: "Request \<Rightarrow> Dashboard \<Rightarrow> Dashboard" where
  "axios r s = s\<lparr>requests := requests s @ [r]\<rparr>"

text \<open>
  \<^verbatim>\<open>axiosError.response?.data.message ?? fallback\<close>: with \<^verbatim>\<open>message\<close> a string, the
  fallback is taken exactly when the error carries no response.
\<close>

fun error_description :: "AxiosError \<Rightarrow> string \<Rightarrow> string" where
  "error_description (AxiosError None) fallback = fallback"
| "error_description (AxiosError (Some d)) fallback = data_message d"

subsection \<open>Handlers\<close>

definition handleDeleteMessage :: "string \<Rightarrow> Dashboard \<Rightarrow> Dashboard" where
  "handleDeleteMessage messageId s =
     (let updatedMessages = filter (\<lambda>message. msg_id message \<noteq> messageId) (messages s)
      in s\<lparr>messages := updatedMessages, filteredMessages := updatedMessages\<rparr>)"

definition fetchAcceptMessages_begin :: "Dashboard \<Rightarrow> Dashboard" where
  "fetchAcceptMessages_begin s = axios GetAcceptMessages (s\<lparr>isSwitchLoading := True\<rparr>)"

definition fetchAcceptMessages_resume :: "AxiosError + ApiResponse \<Rightarrow> Dashboard \<Rightarrow> Dashboard" where
  "fetchAcceptMessages_resume outcome s =
     (let s' = (case outcome of
                  Inr response \<Rightarrow> s\<lparr>acceptMessages := data_isAcceptingMessage response\<rparr>
                | Inl axiosError \<Rightarrow>
                    toast \<lparr>title = ''Error'',
                           description =
                             Some (error_description axiosError ''Failed to fetch message settings''),
                           variant = Some Destructive\<rparr> s)
      in s'\<lparr>isSwitchLoading := False\<rparr>)"

definition fetchAcceptMessages :: "AxiosError + ApiResponse \<Rightarrow> Dashboard \<Rightarrow> Dashboard" where
  "fetchAcceptMessages outcome s = fetchAcceptMessages_resume outcome (fetchAcceptMessages_begin s)"

definition fetchMessages_begin :: "Dashboard \<Rightarrow> Dashboard" where
  "fetchMessages_begin s = axios GetMessages (s\<lparr>isLoading := True, isSwitchLoading := True\<rparr>)"

definition fetchMessages_resume ::
  "bool \<Rightarrow> AxiosError + ApiResponse \<Rightarrow> Dashboard \<Rightarrow> Dashboard" where
  "fetchMessages_resume refresh outcome s =
     (let s' = (case outcome of
                  Inr response \<Rightarrow>
                    (let fetchedMessages =
                           (case data_messages response of None \<Rightarrow> [] | Some ms \<Rightarrow> ms);
                         s1 = s\<lparr>messages := fetchedMessages, filteredMessages := fetchedMessages\<rparr>
                     in if refresh
                        then toast \<lparr>title = ''Refreshed Messages'',
                                    description = Some ''Showing latest messages'',
                                    variant = None\<rparr> s1
                        else s1)
                | Inl axiosError \<Rightarrow>
                    toast \<lparr>title = ''Error'',
                           description =
                             Some (error_description axiosError ''Failed to fetch messages''),
                           variant = Some Destructive\<rparr> s)
      in s'\<lparr>isLoading := False, isSwitchLoading := False\<rparr>)"

definition fetchMessages :: "bool \<Rightarrow> AxiosError + ApiResponse \<Rightarrow> Dashboard \<Rightarrow> Dashboard" where
  "fetchMessages refresh outcome s = fetchMessages_resume refresh outcome (fetchMessages_begin s)"

text \<open>
  \<^verbatim>\<open>handleSwitchChange\<close> writes no state before its \<^verbatim>\<open>await\<close>: it only posts the negation
  of the \<^verbatim>\<open>acceptMessages\<close> of its render. The continuation uses that same captured
  value, which \<open>_resume\<close> takes as its first argument.
\<close>

definition handleSwitchChange_begin :: "Dashboard \<Rightarrow> Dashboard" where
  "handleSwitchChange_begin s = axios (PostAcceptMessages (\<not> acceptMessages s)) s"

definition handleSwitchChange_resume ::
  "bool \<Rightarrow> AxiosError + ApiResponse \<Rightarrow> Dashboard \<Rightarrow> Dashboard" where
  "handleSwitchChange_resume acceptMessages0 outcome s =
     (case outcome of
        Inr response \<Rightarrow>
          toast \<lparr>title = data_message response, description = None, variant = Some Default\<rparr>
            (s\<lparr>acceptMessages := \<not> acceptMessages0\<rparr>)
      | Inl axiosError \<Rightarrow>
          toast \<lparr>title = ''Error'',
                 description =
                   Some (error_description axiosError ''Failed to update message settings''),
                 variant = Some Destructive\<rparr> s)"

definition handleSwitchChange :: "AxiosError + ApiResponse \<Rightarrow> Dashboard \<Rightarrow> Dashboard" where
  "handleSwitchChange outcome s =
     handleSwitchChange_resume (acceptMessages s) outcome (handleSwitchChange_begin s)"

definition handleFilterChange :: "FilterOptions \<Rightarrow> Dashboard \<Rightarrow> Dashboard" where
  "handleFilterChange selectedFilter s =
     (let s' = s\<lparr>filter_st := selectedFilter\<rparr>
      in if selectedFilter = F_all
         then s'\<lparr>filteredMessages := messages s\<rparr>
         else s'\<lparr>filteredMessages :=
                   filter (\<lambda>message. purpose message = filter_value selectedFilter) (messages s)\<rparr>)"

subsection \<open>What the page shows\<close>

text \<open>The \<^verbatim>\<open>to\<close> of the \<^verbatim>\<open>CountUp\<close> under the heading "Total Messages Received:".\<close>

definition totalMessagesReceived :: "Dashboard \<Rightarrow> nat" where
  "totalMessagesReceived s = length (filteredMessages s)"

text \<open>The \<^verbatim>\<open>checked\<close> and \<^verbatim>\<open>disabled\<close> of the \<^verbatim>\<open>Switch\<close>.\<close>

definition switch_checked :: "Dashboard \<Rightarrow> bool" where
  "switch_checked s = acceptMessages s"

definition switch_disabled :: "Dashboard \<Rightarrow> bool" where
  "switch_disabled s = isSwitchLoading s"

subsection \<open>A small inbox\<close>

text \<open>Three messages, one of each purpose, and a dashboard that has just fetched them.\<close>

definition msg_a :: Message where
  "msg_a = \<lparr>msg_id = ''a1'', content = ''Great job!'', purpose = ''appreciation'', createdAt = 3\<rparr>"

definition msg_f :: Message where
  "msg_f = \<lparr>msg_id = ''f1'', content = ''Too slow'', purpose = ''feedback'', createdAt = 2\<rparr>"

definition msg_s :: Message where
  "msg_s = \<lparr>msg_id = ''s1'', content = ''Add a dark mode'', purpose = ''suggestion'', createdAt = 1\<rparr>"

definition inbox3 :: Dashboard where
  "inbox3 = \<lparr>messages = [msg_a, msg_f, msg_s],
             filteredMessages = [msg_a, msg_f, msg_s],
             isLoading = False,
             isSwitchLoading = False,
             profileUrl = ''https://box.example/u/owner'',
             filter_st = F_all,
             acceptMessages = True,
             toasts = [],
             requests = [GetMessages, GetAcceptMessages]\<rparr>"

section \<open>Field-wise effect of each handler\<close>

lemma toast_fields [simp]:
  "messages (toast t s) = messages s"
  "filteredMessages (toast t s) = filteredMessages s"
  "filter_st (toast t s) = filter_st s"
  "acceptMessages (toast t s) = acceptMessages s"
  "requests (toast t s) = requests s"
  "isLoading (toast t s) = isLoading s"
  "isSwitchLoading (toast t s) = isSwitchLoading s"
  "toasts (toast t s) = toasts s @ [t]"
  by (simp_all add: toast_def)

lemma axios_fields [simp]:
  "messages (axios r s) = messages s"
  "filteredMessages (axios r s) = filteredMessages s"
  "filter_st (axios r s) = filter_st s"
  "acceptMessages (axios r s) = acceptMessages s"
  "toasts (axios r s) = toasts s"
  "isLoading (axios r s) = isLoading s"
  "isSwitchLoading (axios r s) = isSwitchLoading s"
  "requests (axios r s) = requests s @ [r]"
  by (simp_all add: axios_def)

lemma handleFilterChange_fields:
  "messages (handleFilterChange c s) = messages s"
  "requests (handleFilterChange c s) = requests s"
  "toasts (handleFilterChange c s) = toasts s"
  "acceptMessages (handleFilterChange c s) = acceptMessages s"
  "filter_st (handleFilterChange c s) = c"
  by (simp_all add: handleFilterChange_def Let_def)

lemma handleFilterChange_filtered:
  "filteredMessages (handleFilterChange c s) =
     (if c = F_all then messages s
      else filter (\<lambda>m. purpose m = filter_value c) (messages s))"
  by (simp add: handleFilterChange_def Let_def)

section \<open>Filtering\<close>

text \<open>
  C1. Whatever list was fetched last and whichever category is selected,
  \<^verbatim>\<open>handleFilterChange\<close> shows the messages of the full list whose purpose is the
  selected one, in their order, when the category is feedback, suggestion or
  appreciation, and the full list when it is all. The list shown before has no
  influence: the result is computed from \<open>messages\<close>.
\<close>

theorem C1_handleFilterChange_displays:
  "filteredMessages (handleFilterChange F_all s) = messages s
   \<and> filteredMessages (handleFilterChange F_feedback s) =
       filter (\<lambda>m. purpose m = ''feedback'') (messages s)
   \<and> filteredMessages (handleFilterChange F_suggestion s) =
       filter (\<lambda>m. purpose m = ''suggestion'') (messages s)
   \<and> filteredMessages (handleFilterChange F_appreciation s) =
       filter (\<lambda>m. purpose m = ''appreciation'') (messages s)
   \<and> filteredMessages (handleFilterChange c (s\<lparr>filteredMessages := shown\<rparr>)) =
       filteredMessages (handleFilterChange c s)"
  by (simp add: handleFilterChange_filtered)

text \<open>
  C3. The list shown after a selection depends on the fetched list and the selected
  category only. Selecting feedback, then all, then feedback again shows the same list
  as the first feedback selection did; the same holds after any run of selections in
  between. No selection issues a request, and none changes the stored full list.
\<close>

theorem C3_filtering_is_pure:
  "filteredMessages
     (handleFilterChange F_feedback (handleFilterChange F_all (handleFilterChange F_feedback s))) =
   filteredMessages (handleFilterChange F_feedback s)
   \<and> filteredMessages (handleFilterChange c (fold handleFilterChange cs s)) =
       filteredMessages (handleFilterChange c s)
   \<and> filteredMessages (handleFilterChange c s) =
       filteredMessages (handleFilterChange c (t\<lparr>messages := messages s\<rparr>))
   \<and> requests (handleFilterChange c s) = requests s
   \<and> requests (fold handleFilterChange cs s) = requests s
   \<and> messages (handleFilterChange c s) = messages s
   \<and> messages (fold handleFilterChange cs s) = messages s"
proof -
  have run: "messages (fold handleFilterChange cs s) = messages s
             \<and> requests (fold handleFilterChange cs s) = requests s"
    by (induction cs arbitrary: s) (simp_all add: handleFilterChange_fields)
  have once: "\<And>c u v. messages u = messages v \<Longrightarrow>
                filteredMessages (handleFilterChange c u) = filteredMessages (handleFilterChange c v)"
    by (simp add: handleFilterChange_filtered)
  have "filteredMessages
          (handleFilterChange F_feedback (handleFilterChange F_all (handleFilterChange F_feedback s))) =
        filteredMessages (handleFilterChange F_feedback s)"
    by (rule once) (simp add: handleFilterChange_fields)
  moreover have "filteredMessages (handleFilterChange c (fold handleFilterChange cs s)) =
                 filteredMessages (handleFilterChange c s)"
    by (rule once) (simp add: run)
  moreover have "filteredMessages (handleFilterChange c s) =
                 filteredMessages (handleFilterChange c (t\<lparr>messages := messages s\<rparr>))"
    by (rule once) simp
  ultimately show ?thesis
    by (simp add: run handleFilterChange_fields)
qed

section \<open>The count\<close>

text \<open>
  C2. The figure under "Total Messages Received:" is the length of the list shown, not
  of the list fetched: with the three-message inbox and the feedback category selected
  it reads 1 while three messages are stored.
\<close>

theorem C2_total_follows_the_filter:
  "totalMessagesReceived (handleFilterChange F_feedback inbox3) = 1
   \<and> length (messages (handleFilterChange F_feedback inbox3)) = 3"
  by (simp add: totalMessagesReceived_def handleFilterChange_filtered handleFilterChange_fields
        inbox3_def msg_a_def msg_f_def msg_s_def)

section \<open>Deleting\<close>

lemma handleDeleteMessage_fields:
  "messages (handleDeleteMessage x s) = filter (\<lambda>m. msg_id m \<noteq> x) (messages s)"
  "filteredMessages (handleDeleteMessage x s) = filter (\<lambda>m. msg_id m \<noteq> x) (messages s)"
  "filter_st (handleDeleteMessage x s) = filter_st s"
  "acceptMessages (handleDeleteMessage x s) = acceptMessages s"
  "requests (handleDeleteMessage x s) = requests s"
  "toasts (handleDeleteMessage x s) = toasts s"
  by (simp_all add: handleDeleteMessage_def Let_def)

lemma filter_other_ids_absent:
  "x \<notin> set (map msg_id ms) \<Longrightarrow> filter (\<lambda>m. msg_id m \<noteq> x) ms = ms"
  by (induction ms) auto

text \<open>
  C4. \<^verbatim>\<open>handleDeleteMessage\<close> keeps, in order, the messages of the local list whose
  \<^verbatim>\<open>_id\<close> differs from the given one and drops the others. Afterwards the id occurs in
  neither the full nor the displayed list. When the id was not in the list, both lists
  equal the full list of before, and deleting the same id a second time changes nothing.
\<close>

theorem C4_handleDeleteMessage_removes_id:
  "messages (handleDeleteMessage x s) = filter (\<lambda>m. msg_id m \<noteq> x) (messages s)
   \<and> x \<notin> set (map msg_id (messages (handleDeleteMessage x s)))
   \<and> x \<notin> set (map msg_id (filteredMessages (handleDeleteMessage x s)))
   \<and> (x \<notin> set (map msg_id (messages s)) \<longrightarrow>
        messages (handleDeleteMessage x s) = messages s
        \<and> filteredMessages (handleDeleteMessage x s) = messages s)
   \<and> handleDeleteMessage x (handleDeleteMessage x s) = handleDeleteMessage x s"
proof -
  have gone: "x \<notin> set (map msg_id (filter (\<lambda>m. msg_id m \<noteq> x) (messages s)))"
    by auto
  have absent: "x \<notin> set (map msg_id (messages s)) \<Longrightarrow>
                filter (\<lambda>m. msg_id m \<noteq> x) (messages s) = messages s"
    by (rule filter_other_ids_absent)
  have twice: "handleDeleteMessage x (handleDeleteMessage x s) = handleDeleteMessage x s"
    by (simp add: handleDeleteMessage_def Let_def)
  show ?thesis
    using gone absent twice by (simp add: handleDeleteMessage_fields)
qed

theorem C4_handleDeleteMessage_absent_id_witness:
  "''zz'' \<notin> set (map msg_id (messages inbox3))
   \<and> messages (handleDeleteMessage ''zz'' inbox3) = messages inbox3
   \<and> filteredMessages (handleDeleteMessage ''zz'' inbox3) = messages inbox3
   \<and> messages (handleDeleteMessage ''f1'' inbox3) = [msg_a, msg_s]"
  using C4_handleDeleteMessage_removes_id [of "''zz''" inbox3]
        C4_handleDeleteMessage_removes_id [of "''f1''" inbox3]
  by (simp add: inbox3_def msg_a_def msg_f_def msg_s_def)

section \<open>Fetching\<close>

lemma fetchMessages_failed:
  "fetchMessages refresh (Inl e) s =
     s\<lparr>isLoading := False, isSwitchLoading := False,
       toasts := toasts s @ [\<lparr>title = ''Error'',
                               description = Some (error_description e ''Failed to fetch messages''),
                               variant = Some Destructive\<rparr>],
       requests := requests s @ [GetMessages]\<rparr>"
  by (simp add: fetchMessages_def fetchMessages_resume_def fetchMessages_begin_def
        toast_def axios_def)

lemma fetchMessages_succeeded:
  "fetchMessages refresh (Inr r) s =
     s\<lparr>messages := (case data_messages r of None \<Rightarrow> [] | Some ms \<Rightarrow> ms),
       filteredMessages := (case data_messages r of None \<Rightarrow> [] | Some ms \<Rightarrow> ms),
       isLoading := False, isSwitchLoading := False,
       toasts := toasts s @
         (if refresh
          then [\<lparr>title = ''Refreshed Messages'', description = Some ''Showing latest messages'',
                  variant = None\<rparr>]
          else []),
       requests := requests s @ [GetMessages]\<rparr>"
  by (simp add: fetchMessages_def fetchMessages_resume_def fetchMessages_begin_def
        toast_def axios_def Let_def)

lemma fetchAcceptMessages_failed:
  "fetchAcceptMessages (Inl e) s =
     s\<lparr>isSwitchLoading := False,
       toasts := toasts s @ [\<lparr>title = ''Error'',
                               description =
                                 Some (error_description e ''Failed to fetch message settings''),
                               variant = Some Destructive\<rparr>],
       requests := requests s @ [GetAcceptMessages]\<rparr>"
  by (simp add: fetchAcceptMessages_def fetchAcceptMessages_resume_def fetchAcceptMessages_begin_def
        toast_def axios_def)

lemma fetchAcceptMessages_succeeded:
  "fetchAcceptMessages (Inr r) s =
     s\<lparr>isSwitchLoading := False,
       acceptMessages := data_isAcceptingMessage r,
       requests := requests s @ [GetAcceptMessages]\<rparr>"
  by (simp add: fetchAcceptMessages_def fetchAcceptMessages_resume_def fetchAcceptMessages_begin_def
        axios_def)

lemma fetchAcceptMessages_resume_lists:
  "messages (fetchAcceptMessages_resume outcome s) = messages s"
  "filteredMessages (fetchAcceptMessages_resume outcome s) = filteredMessages s"
  by (simp_all add: fetchAcceptMessages_resume_def split: sum.splits)

lemma fetchMessages_resume_failed:
  "messages (fetchMessages_resume refresh (Inl e) s) = messages s"
  "filteredMessages (fetchMessages_resume refresh (Inl e) s) = filteredMessages s"
  "filter_st (fetchMessages_resume refresh (Inl e) s) = filter_st s"
  "acceptMessages (fetchMessages_resume refresh (Inl e) s) = acceptMessages s"
  by (simp_all add: fetchMessages_resume_def)

text \<open>
  C5. A failed \<^verbatim>\<open>fetchMessages\<close> raises one destructive "Error" toast and changes
  neither the stored list nor the displayed list (nor the selected category or the
  acceptance value): only the two loading flags are reset. A failed
  \<^verbatim>\<open>fetchAcceptMessages\<close> raises one destructive "Error" toast and leaves
  \<^verbatim>\<open>acceptMessages\<close>, and both lists, as they were. The same holds for the continuation
  alone, whatever happened to the state while the request was pending.
\<close>

theorem C5_failed_fetch_keeps_state:
  "messages (fetchMessages refresh (Inl e) s) = messages s
   \<and> filteredMessages (fetchMessages refresh (Inl e) s) = filteredMessages s
   \<and> filter_st (fetchMessages refresh (Inl e) s) = filter_st s
   \<and> acceptMessages (fetchMessages refresh (Inl e) s) = acceptMessages s
   \<and> toasts (fetchMessages refresh (Inl e) s) =
       toasts s @ [\<lparr>title = ''Error'',
                     description = Some (error_description e ''Failed to fetch messages''),
                     variant = Some Destructive\<rparr>]
   \<and> messages (fetchMessages_resume refresh (Inl e) s) = messages s
   \<and> filteredMessages (fetchMessages_resume refresh (Inl e) s) = filteredMessages s
   \<and> acceptMessages (fetchAcceptMessages (Inl e) s) = acceptMessages s
   \<and> acceptMessages (fetchAcceptMessages_resume (Inl e) s) = acceptMessages s
   \<and> messages (fetchAcceptMessages (Inl e) s) = messages s
   \<and> filteredMessages (fetchAcceptMessages (Inl e) s) = filteredMessages s
   \<and> toasts (fetchAcceptMessages (Inl e) s) =
       toasts s @ [\<lparr>title = ''Error'',
                     description = Some (error_description e ''Failed to fetch message settings''),
                     variant = Some Destructive\<rparr>]"
proof -
  have "acceptMessages (fetchAcceptMessages_resume (Inl e) s) = acceptMessages s"
    by (simp add: fetchAcceptMessages_resume_def)
  then show ?thesis
    by (simp add: fetchMessages_failed fetchAcceptMessages_failed fetchMessages_resume_failed)
qed

text \<open>
  C10. A get-messages response without a \<^verbatim>\<open>messages\<close> field (or with a null one) is an
  empty inbox: the stored and the displayed list both become the empty list, and no
  error toast is raised (on a refresh, the "Refreshed Messages" toast is the only one).
\<close>

theorem C10_absent_messages_is_empty_inbox:
  "messages (fetchMessages refresh (Inr (r\<lparr>data_messages := None\<rparr>)) s) = []
   \<and> filteredMessages (fetchMessages refresh (Inr (r\<lparr>data_messages := None\<rparr>)) s) = []
   \<and> toasts (fetchMessages refresh (Inr (r\<lparr>data_messages := None\<rparr>)) s) =
       toasts s @
         (if refresh
          then [\<lparr>title = ''Refreshed Messages'', description = Some ''Showing latest messages'',
                  variant = None\<rparr>]
          else [])"
  by (simp add: fetchMessages_succeeded)

text \<open>
  C9. Deleting and refreshing show the whole list again. After
  \<^verbatim>\<open>handleDeleteMessage\<close> the displayed list is the entire remaining list, and after a
  successful \<^verbatim>\<open>fetchMessages\<close> it is the entire fetched list; the selected category
  stays what it was and is not applied again.
\<close>

theorem C9_delete_and_refresh_show_everything:
  "filteredMessages (handleDeleteMessage x s) = messages (handleDeleteMessage x s)
   \<and> messages (handleDeleteMessage x s) = filter (\<lambda>m. msg_id m \<noteq> x) (messages s)
   \<and> filter_st (handleDeleteMessage x s) = filter_st s
   \<and> filteredMessages (fetchMessages refresh (Inr r) s) = messages (fetchMessages refresh (Inr r) s)
   \<and> messages (fetchMessages refresh (Inr r) s) =
       (case data_messages r of None \<Rightarrow> [] | Some ms \<Rightarrow> ms)
   \<and> filter_st (fetchMessages refresh (Inr r) s) = filter_st s"
  by (simp add: handleDeleteMessage_fields fetchMessages_succeeded)

lemma delete_under_feedback_filter:
  "filter_st (handleDeleteMessage ''a1'' (handleFilterChange F_feedback inbox3)) = F_feedback
   \<and> filteredMessages (handleFilterChange F_feedback inbox3) = [msg_f]
   \<and> filteredMessages (handleDeleteMessage ''a1'' (handleFilterChange F_feedback inbox3)) =
       [msg_f, msg_s]"
  by (simp add: handleDeleteMessage_fields handleFilterChange_fields handleFilterChange_filtered
        inbox3_def msg_a_def msg_f_def msg_s_def)

lemma refresh_under_feedback_filter:
  "filter_st (fetchMessages True (Inr \<lparr>data_message = ''ok'', data_isAcceptingMessage = True,
                                      data_messages = Some [msg_a, msg_s]\<rparr>)
               (handleFilterChange F_feedback inbox3)) = F_feedback
   \<and> filteredMessages
       (fetchMessages True (Inr \<lparr>data_message = ''ok'', data_isAcceptingMessage = True,
                                 data_messages = Some [msg_a, msg_s]\<rparr>)
          (handleFilterChange F_feedback inbox3)) = [msg_a, msg_s]"
  by (simp add: fetchMessages_succeeded handleFilterChange_fields)

section \<open>The acceptance switch\<close>

lemma handleSwitchChange_failed:
  "handleSwitchChange (Inl e) s =
     s\<lparr>toasts := toasts s @ [\<lparr>title = ''Error'',
                               description =
                                 Some (error_description e ''Failed to update message settings''),
                               variant = Some Destructive\<rparr>],
       requests := requests s @ [PostAcceptMessages (\<not> acceptMessages s)]\<rparr>"
  by (simp add: handleSwitchChange_def handleSwitchChange_resume_def handleSwitchChange_begin_def
        toast_def axios_def)

lemma handleSwitchChange_succeeded:
  "handleSwitchChange (Inr r) s =
     s\<lparr>acceptMessages := \<not> acceptMessages s,
       toasts := toasts s @ [\<lparr>title = data_message r, description = None,
                               variant = Some Default\<rparr>],
       requests := requests s @ [PostAcceptMessages (\<not> acceptMessages s)]\<rparr>"
  by (simp add: handleSwitchChange_def handleSwitchChange_resume_def handleSwitchChange_begin_def
        toast_def axios_def)

lemma handleSwitchChange_resume_lists:
  "messages (handleSwitchChange_resume a outcome s) = messages s"
  "filteredMessages (handleSwitchChange_resume a outcome s) = filteredMessages s"
  by (simp_all add: handleSwitchChange_resume_def split: sum.splits)

lemma handleSwitchChange_begin_fields:
  "messages (handleSwitchChange_begin s) = messages s"
  "filteredMessages (handleSwitchChange_begin s) = filteredMessages s"
  "acceptMessages (handleSwitchChange_begin s) = acceptMessages s"
  "requests (handleSwitchChange_begin s) = requests s @ [PostAcceptMessages (\<not> acceptMessages s)]"
  by (simp_all add: handleSwitchChange_begin_def)

text \<open>
  C6, as the claim has it, at the three-message inbox, whose switch is on: while the
  update is pending the switch would have to show off. It still shows on.
\<close>

theorem C6_no_optimistic_display:
  "switch_checked inbox3
   \<and> switch_checked (handleSwitchChange_begin inbox3) \<noteq> (\<not> switch_checked inbox3)"
  by (simp add: switch_checked_def handleSwitchChange_begin_fields inbox3_def)

text \<open>
  C6, amended. \<^verbatim>\<open>handleSwitchChange\<close> does not touch the displayed toggle before the
  server has answered: while the update is pending the switch shows the value of before.
  The value is written on the success branch only, so after a failed
  \<^verbatim>\<open>handleSwitchChange\<close> the local \<^verbatim>\<open>acceptMessages\<close> equals its value before the flip
  (there is nothing to roll back), and a destructive "Error" toast is raised.
\<close>

theorem C6_switch_waits_for_the_server:
  "switch_checked (handleSwitchChange_begin s) = switch_checked s
   \<and> acceptMessages (handleSwitchChange_begin s) = acceptMessages s
   \<and> acceptMessages (handleSwitchChange (Inl e) s) = acceptMessages s
   \<and> switch_checked (handleSwitchChange (Inl e) s) = switch_checked s
   \<and> acceptMessages (handleSwitchChange_resume a (Inl e) s) = acceptMessages s
   \<and> toasts (handleSwitchChange (Inl e) s) =
       toasts s @ [\<lparr>title = ''Error'',
                     description = Some (error_description e ''Failed to update message settings''),
                     variant = Some Destructive\<rparr>]"
proof -
  have "acceptMessages (handleSwitchChange_resume a (Inl e) s) = acceptMessages s"
    by (simp add: handleSwitchChange_resume_def)
  then show ?thesis
    by (simp add: switch_checked_def handleSwitchChange_begin_fields handleSwitchChange_failed)
qed

text \<open>
  C7. The switch and the fetch of the acceptance flag leave the messages alone: after
  \<^verbatim>\<open>handleSwitchChange\<close>, successful or failed, and after \<^verbatim>\<open>fetchAcceptMessages\<close>,
  successful or failed, the full list and the displayed list are what they were; so
  they are at the \<^verbatim>\<open>await\<close> and after the continuation alone.
\<close>

theorem C7_switch_leaves_messages:
  "messages (handleSwitchChange outcome s) = messages s
   \<and> filteredMessages (handleSwitchChange outcome s) = filteredMessages s
   \<and> messages (fetchAcceptMessages outcome s) = messages s
   \<and> filteredMessages (fetchAcceptMessages outcome s) = filteredMessages s
   \<and> messages (handleSwitchChange_begin s) = messages s
   \<and> filteredMessages (handleSwitchChange_begin s) = filteredMessages s
   \<and> messages (handleSwitchChange_resume a outcome s) = messages s
   \<and> filteredMessages (handleSwitchChange_resume a outcome s) = filteredMessages s
   \<and> messages (fetchAcceptMessages_begin s) = messages s
   \<and> filteredMessages (fetchAcceptMessages_begin s) = filteredMessages s
   \<and> messages (fetchAcceptMessages_resume outcome s) = messages s
   \<and> filteredMessages (fetchAcceptMessages_resume outcome s) = filteredMessages s"
  by (simp add: handleSwitchChange_def fetchAcceptMessages_def fetchAcceptMessages_begin_def
        handleSwitchChange_resume_lists fetchAcceptMessages_resume_lists
        handleSwitchChange_begin_fields)

text \<open>
  C8. \<^verbatim>\<open>handleSwitchChange\<close> posts the negation of the current local \<^verbatim>\<open>acceptMessages\<close>
  and, when the post succeeds, stores that same negation. Two successful calls in a row
  therefore end with the value they started from.
\<close>

theorem C8_switch_negates:
  "requests (handleSwitchChange outcome s) =
     requests s @ [PostAcceptMessages (\<not> acceptMessages s)]
   \<and> acceptMessages (handleSwitchChange (Inr r) s) = (\<not> acceptMessages s)
   \<and> acceptMessages (handleSwitchChange (Inr r') (handleSwitchChange (Inr r) s)) = acceptMessages s"
proof -
  have "requests (handleSwitchChange outcome s) =
          requests s @ [PostAcceptMessages (\<not> acceptMessages s)]"
    by (cases outcome) (simp_all add: handleSwitchChange_failed handleSwitchChange_succeeded)
  then show ?thesis
    by (simp add: handleSwitchChange_succeeded)
qed

end
